theory Spec2Isabelle
  imports Complex_Main "HOL-Library.Sublist"
begin

section \<open>Python values shared by the client modules\<close>

text \<open>
  Exceptions are values.  An exception is its class together with the text that
  \<^verbatim>\<open>str(exc)\<close> gives, since the client decides on retries by inspecting that text.
  \<open>CollaboratorError\<close> stands for any exception class of the authentication collaborator
  or of the HTTP transport that is not one of the classes named in the client.
  Cancellation (a \<^verbatim>\<open>BaseException\<close>) is not modelled.
\<close>

datatype exn_class =
    APIError | InvalidResponseError | UnexpectedStatusCodeError
  | ValueError | KeyError | IndexError | TypeError | AttributeError | OverflowError
  | CollaboratorError

datatype exn = Exn exn_class string

fun exn_class_of :: "exn \<Rightarrow> exn_class" where
  "exn_class_of (Exn c m) = c"

fun str_exn :: "exn \<Rightarrow> string" where
  "str_exn (Exn c m) = m"

text \<open>
  Modelled from the spec: \<^verbatim>\<open>exceptions.py\<close> is not among the sources.  The spec lets
  malformed-response and unexpected-status failures propagate verbatim through the
  pipeline's \<^verbatim>\<open>except APIError\<close> handler, so both classes derive from \<^verbatim>\<open>APIError\<close>.
\<close>

definition isinstance_APIError :: "exn \<Rightarrow> bool" where
  "isinstance_APIError e =
     (exn_class_of e = APIError \<or> exn_class_of e = InvalidResponseError
      \<or> exn_class_of e = UnexpectedStatusCodeError)"

text \<open>\<^verbatim>\<open>sub in s\<close> on two strings, and \<^verbatim>\<open>s.startswith(p)\<close>.\<close>

fun str_contains :: "string \<Rightarrow> string \<Rightarrow> bool" where
  "str_contains sub [] = (sub = [])"
| "str_contains sub (c # cs) = (prefix sub (c # cs) \<or> str_contains sub cs)"

definition startswith :: "string \<Rightarrow> string \<Rightarrow> bool" where
  "startswith s p = prefix p s"

section \<open>const.py: locale-dependent URLs and units\<close>

definition get_fortum_base_url :: "string \<Rightarrow> exn + string" where
  "get_fortum_base_url locale =
     (if locale = ''SV'' then Inr ''https://www.fortum.com/se/el''
      else if locale = ''FI'' then Inr ''https://www.fortum.com/fi/sahkoa''
      else Inl (Exn ValueError (''Unsupported locale: '' @ locale)))"

definition get_api_base_url :: "string \<Rightarrow> exn + string" where
  "get_api_base_url locale =
     (case get_fortum_base_url locale of
        Inl e \<Rightarrow> Inl e
      | Inr base \<Rightarrow> Inr (base @ ''/api''))"

definition get_trpc_base_url :: "string \<Rightarrow> exn + string" where
  "get_trpc_base_url locale =
     (case get_api_base_url locale of
        Inl e \<Rightarrow> Inl e
      | Inr base \<Rightarrow> Inr (base @ ''/trpc''))"

definition get_auth_index_value :: "string \<Rightarrow> exn + string" where
  "get_auth_index_value locale =
     (if locale = ''SV'' then Inr ''SeB2COGWLogin''
      else if locale = ''FI'' then Inr ''FIB2CLogin''
      else Inl (Exn ValueError (''Unsupported locale: '' @ locale)))"

definition get_session_url :: "string \<Rightarrow> exn + string" where
  "get_session_url locale =
     (case get_api_base_url locale of
        Inl e \<Rightarrow> Inl e
      | Inr base \<Rightarrow> Inr (base @ ''/auth/session''))"

definition get_time_series_base_url :: "string \<Rightarrow> exn + string" where
  "get_time_series_base_url locale =
     (case get_trpc_base_url locale of
        Inl e \<Rightarrow> Inl e
      | Inr base \<Rightarrow> Inr (base @ ''/loggedIn.timeSeries.listTimeSeries''))"

definition get_oauth_redirect_uri :: "string \<Rightarrow> exn + string" where
  "get_oauth_redirect_uri locale =
     (case get_api_base_url locale of
        Inl e \<Rightarrow> Inl e
      | Inr base \<Rightarrow> Inr (base @ ''/auth/callback/ciamprod''))"

definition get_cost_unit :: "string \<Rightarrow> exn + string" where
  "get_cost_unit locale =
     (if locale = ''SV'' then Inr ''SEK''
      else if locale = ''FI'' then Inr ''EUR''
      else Inl (Exn ValueError (''Unsupported locale: '' @ locale)))"

section \<open>Naive datetimes of the standard library\<close>

text \<open>
  \<^verbatim>\<open>datetime.now()\<close> gives a naive datetime.  The calendar arithmetic below follows the
  standard library's proleptic Gregorian ordinal (\<^verbatim>\<open>_ymd2ord\<close>, \<^verbatim>\<open>_ord2ymd\<close>): day 1 is
  0001-01-01 and the largest ordinal is that of 9999-12-31.
\<close>

record datetime =
  year :: int
  month :: int
  day :: int
  hour :: int
  minute :: int
  second :: int
  microsecond :: int

definition is_leap :: "int \<Rightarrow> bool" where
  "is_leap y = (y mod 4 = 0 \<and> (y mod 100 \<noteq> 0 \<or> y mod 400 = 0))"

definition DAYS_IN_MONTH :: "int list" where
  "DAYS_IN_MONTH = [-1, 31, 28, 31, 30, 31, 30, 31, 31, 30, 31, 30, 31]"

definition DAYS_BEFORE_MONTH :: "int list" where
  "DAYS_BEFORE_MONTH = [-1, 0, 31, 59, 90, 120, 151, 181, 212, 243, 273, 304, 334]"

definition MAXORDINAL :: int where
  "MAXORDINAL = 3652059"

definition days_before_year :: "int \<Rightarrow> int" where
  "days_before_year y = (y - 1) * 365 + (y - 1) div 4 - (y - 1) div 100 + (y - 1) div 400"

definition days_before_month :: "int \<Rightarrow> int \<Rightarrow> int" where
  "days_before_month y m =
     DAYS_BEFORE_MONTH ! nat m + (if m > 2 \<and> is_leap y then 1 else 0)"

definition ymd2ord :: "int \<Rightarrow> int \<Rightarrow> int \<Rightarrow> int" where
  "ymd2ord y m d = days_before_year y + days_before_month y m + d"

definition ord2ymd :: "int \<Rightarrow> int \<times> int \<times> int" where
  "ord2ymd n0 =
     (let n = n0 - 1;
          n400 = n div 146097; n = n mod 146097;
          y = n400 * 400 + 1;
          n100 = n div 36524; n = n mod 36524;
          n4 = n div 1461; n = n mod 1461;
          n1 = n div 365; n = n mod 365;
          y = y + n100 * 100 + n4 * 4 + n1
      in if n1 = 4 \<or> n100 = 4 then (y - 1, 12, 31)
         else
           (let leapyear = (n1 = 3 \<and> (n4 \<noteq> 24 \<or> n100 = 3));
                m = (n + 50) div 32;
                preceding = DAYS_BEFORE_MONTH ! nat m + (if m > 2 \<and> leapyear then 1 else 0)
            in if preceding > n
               then (let m' = m - 1;
                         preceding' = preceding
                           - (DAYS_IN_MONTH ! nat m' + (if m' = 2 \<and> leapyear then 1 else 0))
                     in (y, m', n - preceding' + 1))
               else (y, m, n - preceding + 1)))"

definition toordinal :: "datetime \<Rightarrow> int" where
  "toordinal dt = ymd2ord (year dt) (month dt) (day dt)"

text \<open>\<^verbatim>\<open>dt.replace(day=1)\<close>: every month has a first day, so this never raises.\<close>

definition replace_day_1 :: "datetime \<Rightarrow> datetime" where
  "replace_day_1 dt = dt\<lparr>day := 1\<rparr>"

text \<open>
  \<^verbatim>\<open>dt - timedelta(days=k)\<close>: the time of day is kept, the date moves back by \<open>k\<close>
  ordinals, and a result outside the supported years raises \<^verbatim>\<open>OverflowError\<close>.
\<close>

definition minus_days :: "datetime \<Rightarrow> int \<Rightarrow> exn + datetime" where
  "minus_days dt k =
     (let n = toordinal dt - k
      in if 0 < n \<and> n \<le> MAXORDINAL
         then (case ord2ymd n of (y, m, d) \<Rightarrow> Inr (dt\<lparr>year := y, month := m, day := d\<rparr>))
         else Inl (Exn OverflowError ''date value out of range''))"

fun str_nat :: "nat \<Rightarrow> string" where
  "str_nat n =
     (if n < 10 then [''0123456789'' ! n]
      else str_nat (n div 10) @ [''0123456789'' ! (n mod 10)])"

definition str_int :: "int \<Rightarrow> string" where
  "str_int i = (if i < 0 then ''-'' @ str_nat (nat (- i)) else str_nat (nat i))"

definition zero_pad :: "nat \<Rightarrow> int \<Rightarrow> string" where
  "zero_pad w i = (let s = str_int i in replicate (w - length s) CHR ''0'' @ s)"

definition isoformat :: "datetime \<Rightarrow> string" where
  "isoformat dt =
     zero_pad 4 (year dt) @ ''-'' @ zero_pad 2 (month dt) @ ''-'' @ zero_pad 2 (day dt)
     @ ''T'' @ zero_pad 2 (hour dt) @ '':'' @ zero_pad 2 (minute dt) @ '':''
     @ zero_pad 2 (second dt)
     @ (if microsecond dt \<noteq> 0 then ''.'' @ zero_pad 6 (microsecond dt) else [])"

section \<open>api/endpoints.py\<close>

text \<open>
  The tRPC input object.  \<open>quote_dumps\<close> stands for the two library calls
  \<^verbatim>\<open>urllib.parse.quote(json.dumps({"0": {"json": input}}, separators=(",", ":")))\<close>,
  which do not raise on strings and are evaluated before the base URL is looked up.
\<close>

record trpc_input =
  meteringPointNo :: "string list"
  fromDate :: string
  toDate :: string
  resolution :: string

definition get_session_username_url :: "string \<Rightarrow> exn + string" where
  "get_session_username_url locale =
     (case get_api_base_url locale of
        Inl e \<Rightarrow> Inl e
      | Inr base \<Rightarrow> Inr (base @ ''/get-session-username''))"

definition endpoints_get_session_url :: "string \<Rightarrow> exn + string" where
  "endpoints_get_session_url locale =
     (case get_api_base_url locale of
        Inl e \<Rightarrow> Inl e
      | Inr base \<Rightarrow> Inr (base @ ''/auth/session''))"

definition get_time_series_url ::
  "(trpc_input \<Rightarrow> string) \<Rightarrow> string \<Rightarrow> string list \<Rightarrow> datetime \<Rightarrow> datetime \<Rightarrow> string
     \<Rightarrow> exn + string" where
  "get_time_series_url quote_dumps locale metering_point_nos from_date to_date res =
     (let input_data = \<lparr>meteringPointNo = metering_point_nos,
                         fromDate = isoformat from_date @ ''Z'',
                         toDate = isoformat to_date @ ''Z'',
                         resolution = res\<rparr>;
          input_encoded = quote_dumps input_data
      in case get_time_series_base_url locale of
           Inl e \<Rightarrow> Inl e
         | Inr base \<Rightarrow> Inr (base @ ''?batch=1&input='' @ input_encoded))"

section \<open>api/client.py: the cookie domain router\<close>

definition get_cookie_domain :: "string \<Rightarrow> string" where
  "get_cookie_domain cookie_name =
     (if cookie_name \<in> set [''amlbcookie'', ''18dddeef3f61363''] then ''.sso.fortum.com''
      else if startswith cookie_name ''__Host-'' \<or> startswith cookie_name ''__Secure-''
              \<or> cookie_name = ''NEXT_LOCALE''
           then ''www.fortum.com''
      else ''www.fortum.com'')"

section \<open>Decoded JSON values and the Python operations the client applies to them\<close>

text \<open>
  \<^verbatim>\<open>response.json()\<close> gives \<^verbatim>\<open>None\<close>, a bool, an int, a float, a str, a list or a
  dict (kept as an association list in key order, looked up with \<open>map_of\<close>).
\<close>

datatype pyfloat = PyFloat rat | PyInf bool | PyNaN

datatype json =
    JNull
  | JBool bool
  | JInt int
  | JFloat pyfloat
  | JString string
  | JArray "json list"
  | JObject "(string \<times> json) list"

definition quoted :: "string \<Rightarrow> string" where
  "quoted s = [CHR 0x27] @ s @ [CHR 0x27]"

fun type_name :: "json \<Rightarrow> string" where
  "type_name JNull = ''NoneType''"
| "type_name (JBool b) = ''bool''"
| "type_name (JInt i) = ''int''"
| "type_name (JFloat f) = ''float''"
| "type_name (JString s) = ''str''"
| "type_name (JArray xs) = ''list''"
| "type_name (JObject kvs) = ''dict''"

text \<open>\<^verbatim>\<open>key in v\<close> for a string key: membership for a dict and a list, substring for a
  string, \<^verbatim>\<open>TypeError\<close> for a value that is no container.\<close>

fun py_in :: "string \<Rightarrow> json \<Rightarrow> exn + bool" where
  "py_in k (JObject kvs) = Inr (map_of kvs k \<noteq> None)"
| "py_in k (JArray xs) = Inr (JString k \<in> set xs)"
| "py_in k (JString s) = Inr (str_contains k s)"
| "py_in k v =
     Inl (Exn TypeError (''argument of type '' @ quoted (type_name v) @ '' is not iterable''))"

text \<open>\<^verbatim>\<open>v[key]\<close> for a string key; a missing key of a dict raises \<^verbatim>\<open>KeyError\<close>, whose
  text is the key's \<^verbatim>\<open>repr\<close>.\<close>

fun py_getitem :: "json \<Rightarrow> string \<Rightarrow> exn + json" where
  "py_getitem (JObject kvs) k =
     (case map_of kvs k of
        None \<Rightarrow> Inl (Exn KeyError (quoted k))
      | Some v \<Rightarrow> Inr v)"
| "py_getitem (JArray xs) k =
     Inl (Exn TypeError ''list indices must be integers or slices, not str'')"
| "py_getitem (JString s) k =
     Inl (Exn TypeError (''string indices must be integers, not '' @ quoted ''str''))"
| "py_getitem v k =
     Inl (Exn TypeError (quoted (type_name v) @ '' object is not subscriptable''))"

text \<open>\<^verbatim>\<open>v.get(key, default)\<close>: only a dict has the method.\<close>

fun py_get :: "json \<Rightarrow> string \<Rightarrow> json \<Rightarrow> exn + json" where
  "py_get (JObject kvs) k dflt = Inr (case map_of kvs k of None \<Rightarrow> dflt | Some v \<Rightarrow> v)"
| "py_get v k dflt =
     Inl (Exn AttributeError
            (quoted (type_name v) @ '' object has no attribute '' @ quoted ''get''))"

text \<open>Truth value of a decoded value, as \<^verbatim>\<open>if v\<close> tests it.\<close>

fun py_truthy :: "json \<Rightarrow> bool" where
  "py_truthy JNull = False"
| "py_truthy (JBool b) = b"
| "py_truthy (JInt i) = (i \<noteq> 0)"
| "py_truthy (JFloat (PyFloat q)) = (q \<noteq> 0)"
| "py_truthy (JFloat (PyInf s)) = True"
| "py_truthy (JFloat PyNaN) = True"
| "py_truthy (JString s) = (s \<noteq> [])"
| "py_truthy (JArray xs) = (xs \<noteq> [])"
| "py_truthy (JObject kvs) = (kvs \<noteq> [])"

text \<open>\<^verbatim>\<open>v[0]\<close>; a decoded dict has string keys only, so the integer key is missing.\<close>

fun py_index0 :: "json \<Rightarrow> exn + json" where
  "py_index0 (JArray []) = Inl (Exn IndexError ''list index out of range'')"
| "py_index0 (JArray (x # xs)) = Inr x"
| "py_index0 (JString []) = Inl (Exn IndexError ''string index out of range'')"
| "py_index0 (JString (c # cs)) = Inr (JString [c])"
| "py_index0 (JObject kvs) = Inl (Exn KeyError ''0'')"
| "py_index0 v = Inl (Exn TypeError (quoted (type_name v) @ '' object is not subscriptable''))"

text \<open>
  What an f-string prints for a decoded value: a string prints as itself; for every
  other value the text is the library's \<^verbatim>\<open>repr\<close>, taken as the parameter \<open>py_repr\<close>.
\<close>

definition format_value :: "(json \<Rightarrow> string) \<Rightarrow> json \<Rightarrow> string" where
  "format_value py_repr v = (case v of JString s \<Rightarrow> s | _ \<Rightarrow> py_repr v)"

section \<open>HTTP responses\<close>

text \<open>
  The fields of a response the client reads: the status code, the body text, the
  \<^verbatim>\<open>Location\<close> header if present, and the outcome of \<^verbatim>\<open>response.json()\<close>, which is
  either the decoded value or the message of the \<^verbatim>\<open>ValueError\<close> the decoder raised.
\<close>

record response =
  status_code :: int
  text_body :: string
  location :: "string option"
  json_body :: "string + json"

definition response_json :: "response \<Rightarrow> exn + json" where
  "response_json r =
     (case json_body r of
        Inl msg \<Rightarrow> Inl (Exn ValueError msg)
      | Inr v \<Rightarrow> Inr v)"

section \<open>api/client.py: the response envelope decoder\<close>

text \<open>The first \<^verbatim>\<open>if\<close> of \<^verbatim>\<open>_parse_trpc_response\<close>: \<open>Inr (Some v)\<close> when it returns \<open>v\<close>,
  \<open>Inr None\<close> when control falls through to the fallback.\<close>

definition trpc_nested :: "json \<Rightarrow> exn + json option" where
  "trpc_nested json_data =
     (case json_data of
        JArray (result # rest) \<Rightarrow>
          (case py_in ''result'' result of
             Inl e \<Rightarrow> Inl e
           | Inr False \<Rightarrow> Inr None
           | Inr True \<Rightarrow>
               (case py_getitem result ''result'' of
                  Inl e \<Rightarrow> Inl e
                | Inr r \<Rightarrow>
                    (case py_in ''data'' r of
                       Inl e \<Rightarrow> Inl e
                     | Inr False \<Rightarrow> Inr None
                     | Inr True \<Rightarrow>
                         (case py_getitem r ''data'' of
                            Inl e \<Rightarrow> Inl e
                          | Inr d \<Rightarrow>
                              (case py_getitem d ''json'' of
                                 Inl e \<Rightarrow> Inl e
                               | Inr j \<Rightarrow> Inr (Some j))))))
      | _ \<Rightarrow> Inr None)"

definition trpc_fallback :: "json \<Rightarrow> exn + json" where
  "trpc_fallback json_data =
     (case json_data of
        JObject kvs \<Rightarrow> Inr json_data
      | _ \<Rightarrow> (if py_truthy json_data then py_index0 json_data else Inr (JObject [])))"

definition parse_trpc_response :: "response \<Rightarrow> exn + json" where
  "parse_trpc_response resp =
     (let body =
        (case response_json resp of
           Inl e \<Rightarrow> Inl e
         | Inr json_data \<Rightarrow>
             (case trpc_nested json_data of
                Inl e \<Rightarrow> Inl e
              | Inr (Some v) \<Rightarrow> Inr v
              | Inr None \<Rightarrow> trpc_fallback json_data))
      in case body of
           Inr v \<Rightarrow> Inr v
         | Inl exc \<Rightarrow>
             (if exn_class_of exc \<in> set [ValueError, KeyError, IndexError]
              then Inl (Exn InvalidResponseError
                          (''Failed to parse tRPC response: '' @ str_exn exc))
              else Inl exc))"

section \<open>api/client.py: status-code handlers\<close>

definition TOKEN_EXPIRED_RETRY_MSG :: string where
  "TOKEN_EXPIRED_RETRY_MSG = ''Token expired - retry required''"

text \<open>\<^verbatim>\<open>_handle_redirect_response\<close> always raises; the result is the exception.\<close>

definition handle_redirect_response :: "response \<Rightarrow> exn" where
  "handle_redirect_response resp =
     (let loc = (case location resp of None \<Rightarrow> [] | Some l \<Rightarrow> l)
      in if str_contains ''sign-out'' loc \<and> str_contains ''TokenExpired'' loc
         then Exn APIError TOKEN_EXPIRED_RETRY_MSG
         else Exn APIError (''Unexpected redirect to: '' @ loc))"

text \<open>
  The \<^verbatim>\<open>try\<close> block of \<^verbatim>\<open>_handle_server_error_response\<close>: \<open>Inl e\<close> when it raises
  \<open>e\<close>, \<open>Inr ()\<close> when it completes and control reaches the generic handling.
\<close>

definition server_error_try :: "(json \<Rightarrow> string) \<Rightarrow> response \<Rightarrow> exn + unit" where
  "server_error_try py_repr resp =
     (case response_json resp of
        Inl e \<Rightarrow> Inl e
      | Inr error_data \<Rightarrow>
          (case error_data of
             JArray (error_item # rest) \<Rightarrow>
               (case py_in ''error'' error_item of
                  Inl e \<Rightarrow> Inl e
                | Inr False \<Rightarrow> Inr ()
                | Inr True \<Rightarrow>
                    (case py_getitem error_item ''error'' of
                       Inl e \<Rightarrow> Inl e
                     | Inr error_details \<Rightarrow>
                         (case py_in ''json'' error_details of
                            Inl e \<Rightarrow> Inl e
                          | Inr False \<Rightarrow> Inr ()
                          | Inr True \<Rightarrow>
                              (case py_getitem error_details ''json'' of
                                 Inl e \<Rightarrow> Inl e
                               | Inr json_error \<Rightarrow>
                                   (case py_get json_error ''message'' (JString ''Unknown error'') of
                                      Inl e \<Rightarrow> Inl e
                                    | Inr error_msg \<Rightarrow>
                                        (case py_get json_error ''code'' (JString ''Unknown'') of
                                           Inl e \<Rightarrow> Inl e
                                         | Inr error_code \<Rightarrow>
                                             (if error_msg = JString ''INTERNAL_SERVER_ERROR''
                                              then Inl (Exn APIError
                                                ''Server error - try reducing date range or changing resolution'')
                                              else Inl (Exn APIError
                                                (''Server error: '' @ format_value py_repr error_msg)))))))))
           | _ \<Rightarrow> Inr ()))"

definition handle_server_error_response :: "(json \<Rightarrow> string) \<Rightarrow> response \<Rightarrow> exn" where
  "handle_server_error_response py_repr resp =
     (case server_error_try py_repr resp of
        Inl exc \<Rightarrow>
          (if exn_class_of exc \<in> set [ValueError, KeyError]
           then Exn APIError ''Server internal error - try again later''
           else exc)
      | Inr u \<Rightarrow> Exn APIError ''Server internal error - try again later'')"

section \<open>The collaborators and the observable trace\<close>

text \<open>
  The authentication collaborator (\<^verbatim>\<open>OAuth2AuthClient\<close>) is external: its accessors and
  operations are functions on an external state \<open>'s\<close>.  An operation that may raise gives
  \<open>Some exn\<close> when it raises and \<open>None\<close> when it returns, together with the state it leaves.
  A missing token or cookie mapping (\<^verbatim>\<open>None\<close>) is \<open>None\<close> resp. the empty list.
\<close>

record 's auth_client =
  refresh_token :: "'s \<Rightarrow> string option"
  access_token :: "'s \<Rightarrow> string option"
  session_cookies :: "'s \<Rightarrow> (string \<times> string) list"
  needs_renewal :: "'s \<Rightarrow> bool"
  is_token_expired :: "'s \<Rightarrow> bool"
  refresh_access_token :: "'s \<Rightarrow> exn option \<times> 's"
  authenticate :: "'s \<Rightarrow> exn option \<times> 's"

text \<open>
  The client object: its collaborator, its locale, the transport (\<^verbatim>\<open>client.get\<close> with
  the URL, the headers and the cookies \<open>(name, value, domain)\<close> set on the client),
  \<^verbatim>\<open>asyncio.sleep\<close>, and the library's \<^verbatim>\<open>repr\<close> of a decoded value.
\<close>

record 's api_client =
  auth :: "'s auth_client"
  client_locale :: string
  http_get :: "string \<Rightarrow> (string \<times> string) list \<Rightarrow> (string \<times> string \<times> string) list
                 \<Rightarrow> 's \<Rightarrow> (exn + response) \<times> 's"
  sleep :: "rat \<Rightarrow> 's \<Rightarrow> 's"
  repr_value :: "json \<Rightarrow> string"

text \<open>Every call that leaves the client is recorded, in order.\<close>

datatype event =
    Refresh
  | Authenticate
  | HttpGet string "(string \<times> string) list" "(string \<times> string \<times> string) list"
  | Sleep rat

record 's st =
  world :: 's
  trace :: "event list"

definition call_refresh :: "'s auth_client \<Rightarrow> 's st \<Rightarrow> exn option \<times> 's st" where
  "call_refresh ac s =
     (case refresh_access_token ac (world s) of
        (r, w) \<Rightarrow> (r, \<lparr>world = w, trace = trace s @ [Refresh]\<rparr>))"

definition call_authenticate :: "'s auth_client \<Rightarrow> 's st \<Rightarrow> exn option \<times> 's st" where
  "call_authenticate ac s =
     (case authenticate ac (world s) of
        (r, w) \<Rightarrow> (r, \<lparr>world = w, trace = trace s @ [Authenticate]\<rparr>))"

definition call_http_get ::
  "'s api_client \<Rightarrow> string \<Rightarrow> (string \<times> string) list \<Rightarrow> (string \<times> string \<times> string) list
     \<Rightarrow> 's st \<Rightarrow> (exn + response) \<times> 's st" where
  "call_http_get c url headers cookies s =
     (case http_get c url headers cookies (world s) of
        (r, w) \<Rightarrow> (r, \<lparr>world = w, trace = trace s @ [HttpGet url headers cookies]\<rparr>))"

definition call_sleep :: "'s api_client \<Rightarrow> rat \<Rightarrow> 's st \<Rightarrow> 's st" where
  "call_sleep c delay s = \<lparr>world = sleep c delay (world s), trace = trace s @ [Sleep delay]\<rparr>"

text \<open>Truth value of an optional string, as \<^verbatim>\<open>if token\<close> tests it.\<close>

definition str_truthy :: "string option \<Rightarrow> bool" where
  "str_truthy t = (case t of None \<Rightarrow> False | Some s \<Rightarrow> s \<noteq> [])"

section \<open>api/client.py: the token lifecycle gate\<close>

definition ensure_valid_token :: "'s auth_client \<Rightarrow> bool \<Rightarrow> 's st \<Rightarrow> exn option \<times> 's st" where
  "ensure_valid_token ac proactive s =
     (let needs_refresh =
            (if proactive \<and> needs_renewal ac (world s) then True
             else if is_token_expired ac (world s) then True
             else False)
      in if needs_refresh
         then (if str_truthy (refresh_token ac (world s))
                  \<and> refresh_token ac (world s) \<noteq> Some ''session_based''
               then (case call_refresh ac s of
                       (None, s1) \<Rightarrow> (None, s1)
                     | (Some exc, s1) \<Rightarrow> call_authenticate ac s1)
               else call_authenticate ac s)
         else (None, s))"

section \<open>api/client.py: the authenticated request pipeline\<close>

text \<open>\<^verbatim>\<open>_handle_unauthorized_response\<close> always raises; the result is the exception and
  the state the refresh left.\<close>

definition handle_unauthorized_response :: "'s auth_client \<Rightarrow> 's st \<Rightarrow> exn \<times> 's st" where
  "handle_unauthorized_response ac s =
     (case call_refresh ac s of
        (None, s1) \<Rightarrow> (Exn APIError TOKEN_EXPIRED_RETRY_MSG, s1)
      | (Some exc, s1) \<Rightarrow>
          (if isinstance_APIError exc
           then (if str_contains TOKEN_EXPIRED_RETRY_MSG (str_exn exc) then (exc, s1)
                 else (Exn APIError ''Authentication failed - re-authentication required'', s1))
           else (Exn APIError ''Authentication failed - re-authentication required'', s1)))"

definition handle_response :: "'s api_client \<Rightarrow> response \<Rightarrow> 's st \<Rightarrow> (exn + response) \<times> 's st" where
  "handle_response c resp s =
     (if status_code resp = 307 then (Inl (handle_redirect_response resp), s)
      else if status_code resp = 401
           then (case handle_unauthorized_response (auth c) s of (exc, s1) \<Rightarrow> (Inl exc, s1))
      else if status_code resp = 403
           then (Inl (Exn APIError ''Access forbidden - authentication may be required''), s)
      else if status_code resp = 500
           then (Inl (handle_server_error_response (repr_value c) resp), s)
      else if status_code resp \<noteq> 200
           then (Inl (Exn UnexpectedStatusCodeError
                        (''Unexpected status code '' @ str_int (status_code resp) @ '': ''
                         @ text_body resp)), s)
      else if text_body resp = [] then (Inl (Exn InvalidResponseError ''Empty response from API''), s)
      else (Inr resp, s))"

text \<open>The \<^verbatim>\<open>try\<close> block of \<^verbatim>\<open>_get\<close>: fresh headers, the physical request, the
  classification of the response.\<close>

definition build_headers :: "'s api_client \<Rightarrow> string \<Rightarrow> 's \<Rightarrow> exn + (string \<times> string) list" where
  "build_headers c url w =
     (case get_fortum_base_url (client_locale c) of
        Inl e \<Rightarrow> Inl e
      | Inr base \<Rightarrow>
          Inr ([(''Accept'', ''application/json''),
                (''User-Agent'',
                 ''Mozilla/5.0 (X11; Linux x86_64; rv:138.0) Gecko/20100101 Firefox/138.0''),
                (''Content-Type'', ''application/json''),
                (''Referer'', base @ ''/inloggad/el'')]
               @ (case access_token (auth c) w of
                    None \<Rightarrow> []
                  | Some token \<Rightarrow>
                      (if \<not> str_contains ''/api/trpc/'' url
                          \<and> \<not> str_contains ''/api/auth/session'' url
                          \<and> token \<noteq> []
                          \<and> token \<noteq> ''session_based''
                       then [(''Authorization'', ''Bearer '' @ token)]
                       else []))))"

definition try_request ::
  "'s api_client \<Rightarrow> string \<Rightarrow> (string \<times> string \<times> string) list \<Rightarrow> 's st
     \<Rightarrow> (exn + response) \<times> 's st" where
  "try_request c url cookies s =
     (case build_headers c url (world s) of
        Inl e \<Rightarrow> (Inl e, s)
      | Inr headers \<Rightarrow>
          (case call_http_get c url headers cookies s of
             (Inl e, s1) \<Rightarrow> (Inl e, s1)
           | (Inr resp, s1) \<Rightarrow> handle_response c resp s1))"

definition is_session_based :: "'s api_client \<Rightarrow> 's st \<Rightarrow> bool" where
  "is_session_based c s = (refresh_token (auth c) (world s) = Some ''session_based'')"

definition retry_delay :: "bool \<Rightarrow> nat \<Rightarrow> rat" where
  "retry_delay session retry_count =
     (if session then 5 + of_nat retry_count * 5 else (1 / 10) * 2 ^ retry_count)"

text \<open>
  \<^verbatim>\<open>_get\<close> and \<^verbatim>\<open>_handle_retry_logic\<close> call each other.  The attempt runs the
  token gate outside the \<^verbatim>\<open>try\<close> block, so an exception of the gate leaves \<^verbatim>\<open>_get\<close>
  as it is; inside the block an \<^verbatim>\<open>APIError\<close> goes to the retry dispatcher and every
  other exception becomes \<^verbatim>\<open>APIError("GET request failed")\<close>.  Cookies are set with
  their routed domain, as on a real transport client; log output is not modelled.  The
  recursion ends because the dispatcher retries only below attempt counter 4.
\<close>

function get :: "'s api_client \<Rightarrow> string \<Rightarrow> nat \<Rightarrow> 's st \<Rightarrow> (exn + response) \<times> 's st"
  and handle_retry_logic ::
    "'s api_client \<Rightarrow> exn \<Rightarrow> string \<Rightarrow> nat \<Rightarrow> nat \<Rightarrow> 's st \<Rightarrow> (exn + response) \<times> 's st"
where
  "get c url retry_count s =
     (let max_retries = (if is_session_based c s then 5 else 2 :: nat)
      in if retry_count \<ge> max_retries
         then (Inl (Exn APIError (''Maximum retry attempts ('' @ str_nat max_retries
                                   @ '') exceeded for '' @ url)), s)
         else (case ensure_valid_token (auth c) True s of
                 (Some e, s1) \<Rightarrow> (Inl e, s1)
               | (None, s1) \<Rightarrow>
                   (case try_request c url
                           (map (\<lambda>(name, v). (name, v, get_cookie_domain name))
                                (session_cookies (auth c) (world s1))) s1 of
                      (Inr resp, s2) \<Rightarrow> (Inr resp, s2)
                    | (Inl exc, s2) \<Rightarrow>
                        (if isinstance_APIError exc
                         then handle_retry_logic c exc url retry_count max_retries s2
                         else (Inl (Exn APIError ''GET request failed''), s2)))))"
| "handle_retry_logic c exc url retry_count max_retries s =
     (let max_retries_for_token_error = (if is_session_based c s then 4 else 1 :: nat)
      in if str_exn exc = TOKEN_EXPIRED_RETRY_MSG \<and> retry_count < max_retries_for_token_error
         then get c url (retry_count + 1)
                (call_sleep c (retry_delay (is_session_based c s) retry_count) s)
         else if str_contains ''Authentication failed'' (str_exn exc) then (Inl exc, s)
         else (Inl exc, s))"
  by pat_completeness auto
termination
  by (relation "measure (\<lambda>x. case x of
         Inl (c, url, k, s) \<Rightarrow> 2 * (5 - k) + 1
       | Inr (c, exc, url, k, m, s) \<Rightarrow> 2 * (5 - k))")
     (auto split: if_splits)

declare get.simps [simp del] handle_retry_logic.simps [simp del]

section \<open>api/client.py: the adaptive query executor\<close>

text \<open>
  \<^verbatim>\<open>get_time_series_data\<close> over its two collaborators: the clock \<^verbatim>\<open>datetime.now()\<close> and
  \<^verbatim>\<open>_fetch_time_series_data\<close>, each a function on the state \<open>'t\<close> that the calls thread.
\<close>

definition ladder_trigger :: "exn \<Rightarrow> bool" where
  "ladder_trigger exc =
     (str_contains ''Server error'' (str_exn exc)
      \<or> str_contains ''reducing date range'' (str_exn exc))"

definition final_fallback ::
  "('t \<Rightarrow> datetime \<times> 't)
     \<Rightarrow> (string list \<Rightarrow> datetime \<Rightarrow> datetime \<Rightarrow> string \<Rightarrow> 't \<Rightarrow> (exn + 'r) \<times> 't)
     \<Rightarrow> string list \<Rightarrow> string \<Rightarrow> 't \<Rightarrow> (exn + 'r) \<times> 't" where
  "final_fallback now fetch nos res s =
     (case now s of
        (t1, s1) \<Rightarrow>
          (case minus_days t1 7 of
             Inl e \<Rightarrow> (Inl e, s1)
           | Inr final_from \<Rightarrow>
               (case now s1 of
                  (final_to, s2) \<Rightarrow> fetch nos final_from final_to res s2)))"

definition fallback_30_days ::
  "('t \<Rightarrow> datetime \<times> 't)
     \<Rightarrow> (string list \<Rightarrow> datetime \<Rightarrow> datetime \<Rightarrow> string \<Rightarrow> 't \<Rightarrow> (exn + 'r) \<times> 't)
     \<Rightarrow> string list \<Rightarrow> string \<Rightarrow> 't \<Rightarrow> (exn + 'r) \<times> 't" where
  "fallback_30_days now fetch nos res s =
     (case now s of
        (t1, s1) \<Rightarrow>
          (case minus_days t1 30 of
             Inl e \<Rightarrow> (Inl e, s1)
           | Inr fallback_from \<Rightarrow>
               (case now s1 of
                  (fallback_to, s2) \<Rightarrow>
                    (case fetch nos fallback_from fallback_to res s2 of
                       (Inr r, s3) \<Rightarrow> (Inr r, s3)
                     | (Inl exc, s3) \<Rightarrow>
                         (if isinstance_APIError exc then final_fallback now fetch nos res s3
                          else (Inl exc, s3))))))"

definition default_from_date :: "('t \<Rightarrow> datetime \<times> 't) \<Rightarrow> datetime option \<Rightarrow> 't \<Rightarrow> (exn + datetime) \<times> 't" where
  "default_from_date now from_date s =
     (case from_date of
        Some f \<Rightarrow> (Inr f, s)
      | None \<Rightarrow> (case now s of (t, s1) \<Rightarrow> (minus_days (replace_day_1 t) 90, s1)))"

definition default_to_date :: "('t \<Rightarrow> datetime \<times> 't) \<Rightarrow> datetime option \<Rightarrow> 't \<Rightarrow> datetime \<times> 't" where
  "default_to_date now to_date s =
     (case to_date of
        Some t \<Rightarrow> (t, s)
      | None \<Rightarrow> now s)"

definition get_time_series_data ::
  "('t \<Rightarrow> datetime \<times> 't)
     \<Rightarrow> (string list \<Rightarrow> datetime \<Rightarrow> datetime \<Rightarrow> string \<Rightarrow> 't \<Rightarrow> (exn + 'r) \<times> 't)
     \<Rightarrow> string list \<Rightarrow> datetime option \<Rightarrow> datetime option \<Rightarrow> string \<Rightarrow> 't
     \<Rightarrow> (exn + 'r) \<times> 't" where
  "get_time_series_data now fetch nos from_date to_date res s =
     (case default_from_date now from_date s of
        (Inl e, s1) \<Rightarrow> (Inl e, s1)
      | (Inr from_d, s1) \<Rightarrow>
          (case default_to_date now to_date s1 of
             (to_d, s2) \<Rightarrow>
               (case fetch nos from_d to_d res s2 of
                  (Inr r, s3) \<Rightarrow> (Inr r, s3)
                | (Inl exc, s3) \<Rightarrow>
                    (if isinstance_APIError exc
                     then (if ladder_trigger exc then fallback_30_days now fetch nos res s3
                           else (Inl exc, s3))
                     else (Inl exc, s3)))))"

section \<open>Concrete collaborators used to run the model\<close>

text \<open>
  A scripted collaborator over a counter of the physical requests answered so far:
  the refresh token is fixed, \<open>renew\<close> is what \<^verbatim>\<open>needs_renewal()\<close> answers, \<open>outcome\<close> is
  what \<^verbatim>\<open>refresh_access_token()\<close> does, and \<^verbatim>\<open>authenticate()\<close> succeeds.
\<close>

definition fixture_auth :: "string option \<Rightarrow> bool \<Rightarrow> exn option \<Rightarrow> nat auth_client" where
  "fixture_auth rt renew outcome =
     \<lparr>refresh_token = (\<lambda>w. rt),
      access_token = (\<lambda>w. Some ''token''),
      session_cookies = (\<lambda>w. []),
      needs_renewal = (\<lambda>w. renew),
      is_token_expired = (\<lambda>w. False),
      refresh_access_token = (\<lambda>w. (outcome, w)),
      authenticate = (\<lambda>w. (None, w))\<rparr>"

text \<open>A scripted server: the \<open>n\<close>-th physical request is answered by \<open>script n\<close>.\<close>

definition fixture_client :: "string option \<Rightarrow> (nat \<Rightarrow> response) \<Rightarrow> nat api_client" where
  "fixture_client rt script =
     \<lparr>auth = fixture_auth rt False None,
      client_locale = ''SV'',
      http_get = (\<lambda>url headers cookies n. (Inr (script n), Suc n)),
      sleep = (\<lambda>delay n. n),
      repr_value = (\<lambda>v. ''?'')\<rparr>"

definition fixture_status :: "int \<Rightarrow> response" where
  "fixture_status code =
     \<lparr>status_code = code, text_body = ''-'', location = None,
      json_body = Inl ''Expecting value: line 1 column 1 (char 0)''\<rparr>"


definition fixture_json :: "int \<Rightarrow> json \<Rightarrow> response" where
  "fixture_json code v =
     \<lparr>status_code = code, text_body = ''(json)'', location = None, json_body = Inr v\<rparr>"

definition start :: "nat st" where
  "start = \<lparr>world = 0, trace = []\<rparr>"

definition is_http_get :: "event \<Rightarrow> bool" where
  "is_http_get ev = (case ev of HttpGet url headers cookies \<Rightarrow> True | _ \<Rightarrow> False)"

definition physical_attempts :: "event list \<Rightarrow> nat" where
  "physical_attempts evs = length (filter is_http_get evs)"

fun sleeps :: "event list \<Rightarrow> rat list" where
  "sleeps [] = []"
| "sleeps (Sleep d # evs) = d # sleeps evs"
| "sleeps (ev # evs) = sleeps evs"

text \<open>
  A scripted executor environment: the clock always reads \<open>t\<close>; the state is the list
  of the date ranges requested so far, and the \<open>n\<close>-th request is answered by \<open>script n\<close>.
\<close>

definition fixture_now :: "datetime \<Rightarrow> 't \<Rightarrow> datetime \<times> 't" where
  "fixture_now t s = (t, s)"

definition fixture_fetch ::
  "(nat \<Rightarrow> exn + string) \<Rightarrow> string list \<Rightarrow> datetime \<Rightarrow> datetime \<Rightarrow> string
     \<Rightarrow> (datetime \<times> datetime) list \<Rightarrow> (exn + string) \<times> (datetime \<times> datetime) list" where
  "fixture_fetch script nos from_d to_d res calls =
     (script (length calls), calls @ [(from_d, to_d)])"

definition at_date :: "int \<Rightarrow> int \<Rightarrow> int \<Rightarrow> datetime" where
  "at_date y m d =
     \<lparr>year = y, month = m, day = d, hour = 10, minute = 30, second = 0, microsecond = 0\<rparr>"

text \<open>
  The default start of the range as the specification words it: the first day of the
  month in which the day 90 days before now falls.
\<close>

definition spec_default_from_date :: "datetime \<Rightarrow> exn + datetime" where
  "spec_default_from_date now_t =
     (case minus_days now_t 90 of
        Inl e \<Rightarrow> Inl e
      | Inr d \<Rightarrow> Inr (replace_day_1 d))"

text \<open>
  The path \<^verbatim>\<open>result.data.json\<close> as the specification words it: the value is an object
  with a member \<open>result\<close>, an object with a member \<open>data\<close>, an object with a member \<open>json\<close>.
\<close>

definition member_of :: "json \<Rightarrow> string \<Rightarrow> json option" where
  "member_of v k = (case v of JObject kvs \<Rightarrow> map_of kvs k | _ \<Rightarrow> None)"

definition result_data_json :: "json \<Rightarrow> json option" where
  "result_data_json v =
     (case member_of v ''result'' of
        None \<Rightarrow> None
      | Some r \<Rightarrow>
          (case member_of r ''data'' of
             None \<Rightarrow> None
           | Some d \<Rightarrow> member_of d ''json''))"


section \<open>Locale gate of the URL builders and the cost unit\<close>

lemmas url_builder_defs =
  get_fortum_base_url_def get_api_base_url_def get_trpc_base_url_def get_session_url_def
  get_time_series_base_url_def get_oauth_redirect_uri_def get_auth_index_value_def
  get_cost_unit_def get_session_username_url_def endpoints_get_session_url_def
  get_time_series_url_def

text \<open>
  Claim C10.  The URL builders and the unit selection are defined exactly for the
  locales \<open>SV\<close> and \<open>FI\<close>: for every other locale string \<^verbatim>\<open>get_fortum_base_url\<close>, every
  builder derived from it (API base, tRPC base, session URL, time-series base and the tRPC
  time-series URL, OAuth redirect URI, session-username URL) and \<^verbatim>\<open>get_cost_unit\<close> raise
  \<^verbatim>\<open>ValueError("Unsupported locale: ...")\<close> naming the locale; for \<open>SV\<close> and \<open>FI\<close> each of
  them returns a value.
\<close>

theorem locale_gate:
  "(locale \<noteq> ''SV'' \<and> locale \<noteq> ''FI'' \<longrightarrow>
      get_fortum_base_url locale = Inl (Exn ValueError (''Unsupported locale: '' @ locale))
    \<and> get_api_base_url locale = Inl (Exn ValueError (''Unsupported locale: '' @ locale))
    \<and> get_trpc_base_url locale = Inl (Exn ValueError (''Unsupported locale: '' @ locale))
    \<and> get_session_url locale = Inl (Exn ValueError (''Unsupported locale: '' @ locale))
    \<and> endpoints_get_session_url locale = Inl (Exn ValueError (''Unsupported locale: '' @ locale))
    \<and> get_session_username_url locale = Inl (Exn ValueError (''Unsupported locale: '' @ locale))
    \<and> get_oauth_redirect_uri locale = Inl (Exn ValueError (''Unsupported locale: '' @ locale))
    \<and> get_time_series_base_url locale = Inl (Exn ValueError (''Unsupported locale: '' @ locale))
    \<and> get_time_series_url quote_dumps locale nos from_date to_date res
          = Inl (Exn ValueError (''Unsupported locale: '' @ locale))
    \<and> get_cost_unit locale = Inl (Exn ValueError (''Unsupported locale: '' @ locale)))
   \<and> (locale = ''SV'' \<or> locale = ''FI'' \<longrightarrow>
      (\<exists>u. get_fortum_base_url locale = Inr u)
    \<and> (\<exists>u. get_api_base_url locale = Inr u)
    \<and> (\<exists>u. get_trpc_base_url locale = Inr u)
    \<and> (\<exists>u. get_session_url locale = Inr u)
    \<and> (\<exists>u. endpoints_get_session_url locale = Inr u)
    \<and> (\<exists>u. get_session_username_url locale = Inr u)
    \<and> (\<exists>u. get_oauth_redirect_uri locale = Inr u)
    \<and> (\<exists>u. get_time_series_base_url locale = Inr u)
    \<and> (\<exists>u. get_time_series_url quote_dumps locale nos from_date to_date res = Inr u)
    \<and> (\<exists>u. get_cost_unit locale = Inr u))"
  by (auto simp: url_builder_defs Let_def)

theorem locale_gate_witness:
  "get_fortum_base_url ''NO'' = Inl (Exn ValueError ''Unsupported locale: NO'')
   \<and> get_session_url ''NO'' = Inl (Exn ValueError ''Unsupported locale: NO'')
   \<and> get_time_series_url (\<lambda>i. ''%7B%7D'') ''NO'' [''735999''] (at_date 2024 1 1) (at_date 2024 3 1) ''MONTH''
        = Inl (Exn ValueError ''Unsupported locale: NO'')
   \<and> get_cost_unit ''NO'' = Inl (Exn ValueError ''Unsupported locale: NO'')
   \<and> (\<exists>u. get_fortum_base_url ''FI'' = Inr u)
   \<and> (\<exists>u. get_time_series_url (\<lambda>i. ''%7B%7D'') ''FI'' [''735999''] (at_date 2024 1 1) (at_date 2024 3 1) ''MONTH'' = Inr u)
   \<and> (\<exists>u. get_cost_unit ''FI'' = Inr u)"
  using locale_gate [of "''NO''" "\<lambda>i. ''%7B%7D''" "[''735999'']" "at_date 2024 1 1" "at_date 2024 3 1" "''MONTH''"]
        locale_gate [of "''FI''" "\<lambda>i. ''%7B%7D''" "[''735999'']" "at_date 2024 1 1" "at_date 2024 3 1" "''MONTH''"]
  by simp

section \<open>The cookie domain router\<close>

text \<open>
  Claim C8.  The router is a total function of the cookie name: \<open>amlbcookie\<close> goes to
  \<open>.sso.fortum.com\<close>; every name with the prefix \<open>__Host-\<close> or \<open>__Secure-\<close>, and the name
  \<open>NEXT_LOCALE\<close>, goes to \<open>www.fortum.com\<close>; and every name outside the fixed SSO set
  goes to \<open>www.fortum.com\<close>.
\<close>

theorem cookie_domain_router:
  "get_cookie_domain ''amlbcookie'' = ''.sso.fortum.com''
   \<and> (prefix ''__Host-'' name \<or> prefix ''__Secure-'' name \<or> name = ''NEXT_LOCALE''
        \<longrightarrow> get_cookie_domain name = ''www.fortum.com'')
   \<and> (name \<noteq> ''amlbcookie'' \<and> name \<noteq> ''18dddeef3f61363''
        \<longrightarrow> get_cookie_domain name = ''www.fortum.com'')"
  by (auto simp: get_cookie_domain_def startswith_def)

theorem cookie_domain_router_witness:
  "get_cookie_domain ''amlbcookie'' = ''.sso.fortum.com''
   \<and> get_cookie_domain ''__Secure-xyz'' = ''www.fortum.com''
   \<and> get_cookie_domain ''anything_else'' = ''www.fortum.com''"
  using cookie_domain_router [of "''__Secure-xyz''"] cookie_domain_router [of "''anything_else''"]
  by simp

section \<open>The response envelope decoder\<close>

lemmas decoder_defs =
  parse_trpc_response_def response_json_def trpc_nested_def trpc_fallback_def
  result_data_json_def member_of_def

lemma decode_unparseable:
  "json_body resp = Inl msg \<Longrightarrow>
   parse_trpc_response resp
     = Inl (Exn InvalidResponseError (''Failed to parse tRPC response: '' @ msg))"
  by (simp add: decoder_defs)

lemma decode_nested:
  "json_body resp = Inr (JArray (x # xs)) \<Longrightarrow> result_data_json x = Some j \<Longrightarrow>
   parse_trpc_response resp = Inr j"
  by (cases x) (auto simp: decoder_defs split: option.splits json.splits)

lemma decode_plain_object:
  "json_body resp = Inr (JObject kvs) \<Longrightarrow> parse_trpc_response resp = Inr (JObject kvs)"
  by (simp add: decoder_defs)

lemma decode_empty_list:
  "json_body resp = Inr (JArray []) \<Longrightarrow> parse_trpc_response resp = Inr (JObject [])"
  by (simp add: decoder_defs)

lemma decode_no_result:
  "json_body resp = Inr (JArray (JObject kvs # xs)) \<Longrightarrow> map_of kvs ''result'' = None \<Longrightarrow>
   parse_trpc_response resp = Inr (JObject kvs)"
  by (simp add: decoder_defs)

lemma decode_no_data:
  "json_body resp = Inr (JArray (JObject kvs # xs)) \<Longrightarrow>
   map_of kvs ''result'' = Some (JObject r) \<Longrightarrow> map_of r ''data'' = None \<Longrightarrow>
   parse_trpc_response resp = Inr (JObject kvs)"
  by (simp add: decoder_defs)

lemma decode_no_json:
  "json_body resp = Inr (JArray (JObject kvs # xs)) \<Longrightarrow>
   map_of kvs ''result'' = Some (JObject r) \<Longrightarrow> map_of r ''data'' = Some (JObject d) \<Longrightarrow>
   map_of d ''json'' = None \<Longrightarrow>
   parse_trpc_response resp
     = Inl (Exn InvalidResponseError (''Failed to parse tRPC response: '' @ quoted ''json''))"
  by (simp add: decoder_defs)

text \<open>
  Claim C2, as stated, fails: the list \<^verbatim>\<open>[{"result": {"data": {}}}]\<close> is non-empty and its
  first element has no \<^verbatim>\<open>result.data.json\<close> path, yet the decoder does not yield that
  element; the missing key \<open>json\<close> is caught and raised as a malformed response.
\<close>

theorem envelope_decoder_counterexample:
  "result_data_json (JObject [(''result'', JObject [(''data'', JObject [])])]) = None
   \<and> parse_trpc_response
         (fixture_json 200 (JArray [JObject [(''result'', JObject [(''data'', JObject [])])]]))
       = Inl (Exn InvalidResponseError (''Failed to parse tRPC response: '' @ quoted ''json''))"
  by (simp add: decoder_defs fixture_json_def)

text \<open>
  Claim C2, amended.  Decoding \<^verbatim>\<open>[{"result":{"data":{"json":{"a":1}}}}]\<close> yields
  \<^verbatim>\<open>{"a":1}\<close>; decoding \<^verbatim>\<open>{"a":1}\<close> yields \<^verbatim>\<open>{"a":1}\<close>; decoding \<^verbatim>\<open>[]\<close> yields
  \<^verbatim>\<open>{}\<close>; a body that does not parse as JSON raises a malformed-response error.  For every
  body that parses as a non-empty list whose first element has the \<^verbatim>\<open>result.data.json\<close>
  path, the nested value is returned; a plain object is returned as it is; a non-empty list
  whose first element is an object without the key \<open>result\<close>, or whose \<open>result\<close> is an
  object without the key \<open>data\<close>, yields its first element; and when \<open>result.data\<close> is an
  object without the key \<open>json\<close>, a malformed-response error is raised.
\<close>

theorem envelope_decoder:
  "(json_body resp = Inr (JArray [JObject [(''result'',
        JObject [(''data'', JObject [(''json'', JObject [(''a'', JInt 1)])])])]])
      \<longrightarrow> parse_trpc_response resp = Inr (JObject [(''a'', JInt 1)]))
   \<and> (json_body resp = Inr (JObject [(''a'', JInt 1)])
      \<longrightarrow> parse_trpc_response resp = Inr (JObject [(''a'', JInt 1)]))
   \<and> (json_body resp = Inr (JArray [])
      \<longrightarrow> parse_trpc_response resp = Inr (JObject []))
   \<and> (json_body resp = Inl msg
      \<longrightarrow> parse_trpc_response resp
            = Inl (Exn InvalidResponseError (''Failed to parse tRPC response: '' @ msg)))
   \<and> (json_body resp = Inr (JArray (x # xs)) \<and> result_data_json x = Some j
      \<longrightarrow> parse_trpc_response resp = Inr j)
   \<and> (json_body resp = Inr (JObject kvs)
      \<longrightarrow> parse_trpc_response resp = Inr (JObject kvs))
   \<and> (json_body resp = Inr (JArray (JObject kvs # xs))
        \<and> (map_of kvs ''result'' = None
             \<or> (\<exists>r. map_of kvs ''result'' = Some (JObject r) \<and> map_of r ''data'' = None))
      \<longrightarrow> parse_trpc_response resp = Inr (JObject kvs))
   \<and> (json_body resp = Inr (JArray (JObject kvs # xs))
        \<and> (\<exists>r d. map_of kvs ''result'' = Some (JObject r)
                  \<and> map_of r ''data'' = Some (JObject d) \<and> map_of d ''json'' = None)
      \<longrightarrow> parse_trpc_response resp
            = Inl (Exn InvalidResponseError
                     (''Failed to parse tRPC response: '' @ quoted ''json'')))"
proof -
  have nested_example:
    "result_data_json (JObject [(''result'',
        JObject [(''data'', JObject [(''json'', JObject [(''a'', JInt 1)])])])])
     = Some (JObject [(''a'', JInt 1)])"
    by (simp add: result_data_json_def member_of_def)
  show ?thesis
    apply (intro conjI impI)
           apply (erule decode_nested, rule nested_example)
          apply (erule decode_plain_object)
         apply (erule decode_empty_list)
        apply (erule decode_unparseable)
       apply (elim conjE, erule (1) decode_nested)
      apply (erule decode_plain_object)
     apply (elim conjE disjE exE, erule (1) decode_no_result, erule (2) decode_no_data)
    apply (elim conjE exE, erule (3) decode_no_json)
    done
qed

theorem envelope_decoder_witness:
  "parse_trpc_response (fixture_json 200 (JArray [JObject [(''result'',
        JObject [(''data'', JObject [(''json'', JObject [(''a'', JInt 1)])])])]]))
     = Inr (JObject [(''a'', JInt 1)])
   \<and> parse_trpc_response (fixture_json 200 (JObject [(''a'', JInt 1)]))
     = Inr (JObject [(''a'', JInt 1)])
   \<and> parse_trpc_response (fixture_json 200 (JArray [])) = Inr (JObject [])
   \<and> parse_trpc_response (fixture_status 200)
     = Inl (Exn InvalidResponseError
              ''Failed to parse tRPC response: Expecting value: line 1 column 1 (char 0)'')
   \<and> parse_trpc_response (fixture_json 200 (JArray [JObject [(''result'',
        JObject [(''data'', JObject [(''json'', JString ''v'')])])], JNull]))
     = Inr (JString ''v'')
   \<and> parse_trpc_response (fixture_json 200 (JArray [JObject [(''id'', JInt 7)]]))
     = Inr (JObject [(''id'', JInt 7)])
   \<and> parse_trpc_response (fixture_json 200 (JArray [JObject [(''result'', JObject [])]]))
     = Inr (JObject [(''result'', JObject [])])
   \<and> parse_trpc_response
        (fixture_json 200 (JArray [JObject [(''result'', JObject [(''data'', JObject [])])]]))
     = Inl (Exn InvalidResponseError (''Failed to parse tRPC response: '' @ quoted ''json''))"
  using envelope_decoder [of "fixture_json 200 (JArray [JObject [(''result'',
            JObject [(''data'', JObject [(''json'', JObject [(''a'', JInt 1)])])])]])"]
        envelope_decoder [of "fixture_json 200 (JObject [(''a'', JInt 1)])"]
        envelope_decoder [of "fixture_json 200 (JArray [])"]
        envelope_decoder [of "fixture_status 200" "''Expecting value: line 1 column 1 (char 0)''"]
        envelope_decoder [of "fixture_json 200 (JArray [JObject [(''result'',
            JObject [(''data'', JObject [(''json'', JString ''v'')])])], JNull])" _
            "JObject [(''result'', JObject [(''data'', JObject [(''json'', JString ''v'')])])]"
            "[JNull]" "JString ''v''"]
        envelope_decoder [of "fixture_json 200 (JArray [JObject [(''id'', JInt 7)]])" _ _
            "[]" _ "[(''id'', JInt 7)]"]
        envelope_decoder [of "fixture_json 200 (JArray [JObject [(''result'', JObject [])]])" _ _
            "[]" _ "[(''result'', JObject [])]"]
        envelope_decoder [of "fixture_json 200 (JArray [JObject [(''result'',
            JObject [(''data'', JObject [])])]])" _ _ "[]" _
            "[(''result'', JObject [(''data'', JObject [])])]"]
  by (simp add: fixture_json_def fixture_status_def result_data_json_def member_of_def)

section \<open>The 500-status error envelope\<close>

lemmas server_error_defs =
  handle_server_error_response_def server_error_try_def response_json_def

lemma server_error_sentinel:
  "json_body resp = Inr (JArray (JObject item # rest)) \<Longrightarrow>
   map_of item ''error'' = Some (JObject details) \<Longrightarrow>
   map_of details ''json'' = Some (JObject err) \<Longrightarrow>
   map_of err ''message'' = Some (JString ''INTERNAL_SERVER_ERROR'') \<Longrightarrow>
   handle_server_error_response py_repr resp
     = Exn APIError ''Server error - try reducing date range or changing resolution''"
  by (simp add: server_error_defs)

lemma server_error_other_message:
  "json_body resp = Inr (JArray (JObject item # rest)) \<Longrightarrow>
   map_of item ''error'' = Some (JObject details) \<Longrightarrow>
   map_of details ''json'' = Some (JObject err) \<Longrightarrow>
   map_of err ''message'' = Some (JString m) \<Longrightarrow> m \<noteq> ''INTERNAL_SERVER_ERROR'' \<Longrightarrow>
   handle_server_error_response py_repr resp = Exn APIError (''Server error: '' @ m)"
  by (simp add: server_error_defs format_value_def)

lemma server_error_no_envelope:
  "json_body resp = Inl msg
   \<or> json_body resp = Inr (JObject kvs)
   \<or> json_body resp = Inr (JArray [])
   \<or> (json_body resp = Inr (JArray (JObject item # rest)) \<and> map_of item ''error'' = None)
   \<or> (json_body resp = Inr (JArray (JObject item # rest))
        \<and> map_of item ''error'' = Some (JObject details) \<and> map_of details ''json'' = None)
   \<Longrightarrow> handle_server_error_response py_repr resp
         = Exn APIError ''Server internal error - try again later''"
  by (auto simp: server_error_defs)

lemma server_error_never_malformed:
  "exn_class_of (handle_server_error_response py_repr resp) \<noteq> InvalidResponseError"
proof -
  have try_class:
    "server_error_try py_repr resp = Inl e \<Longrightarrow> exn_class_of e \<noteq> InvalidResponseError" for e
  proof -
    have in_class: "py_in k v = Inl e \<Longrightarrow> exn_class_of e = TypeError" for k v
      by (cases v) auto
    have getitem_class:
      "py_getitem v k = Inl e \<Longrightarrow> exn_class_of e = TypeError \<or> exn_class_of e = KeyError" for k v
      by (cases v) (auto split: option.splits)
    have get_class: "py_get v k d = Inl e \<Longrightarrow> exn_class_of e = AttributeError" for k v d
      by (cases v) auto
    assume "server_error_try py_repr resp = Inl e"
    then show ?thesis
      unfolding server_error_try_def response_json_def
      by (auto split: sum.splits json.splits list.splits bool.splits if_splits
               dest!: in_class getitem_class get_class)
  qed
  show ?thesis
    unfolding handle_server_error_response_def
    using try_class by (auto split: sum.splits)
qed

text \<open>
  Claim C7 at a 500 response whose body is the JSON list \<^verbatim>\<open>[5]\<close>: the body holds no
  decodable error envelope, yet the handler raises no generic server error.  The test
  \<^verbatim>\<open>"error" in 5\<close> raises \<^verbatim>\<open>TypeError\<close>, which the handler's
  \<^verbatim>\<open>except (ValueError, KeyError)\<close> does not catch; the pipeline then reports it as
  \<^verbatim>\<open>APIError("GET request failed")\<close>.
\<close>

theorem server_error_non_container_item:
  "handle_server_error_response py_repr (fixture_json 500 (JArray [JInt 5]))
     = Exn TypeError (''argument of type '' @ quoted ''int'' @ '' is not iterable'')
   \<and> fst (get (fixture_client (Some ''session_based'') (\<lambda>n. fixture_json 500 (JArray [JInt 5])))
             ''https://www.fortum.com/se/el/api/trpc/x'' 0 start)
     = Inl (Exn APIError ''GET request failed'')"
proof -
  have handler:
    "handle_server_error_response py_repr (fixture_json 500 (JArray [JInt 5]))
       = Exn TypeError (''argument of type '' @ quoted ''int'' @ '' is not iterable'')"
    by (simp add: server_error_defs fixture_json_def)
  have pipeline:
    "fst (get (fixture_client (Some ''session_based'') (\<lambda>n. fixture_json 500 (JArray [JInt 5])))
             ''https://www.fortum.com/se/el/api/trpc/x'' 0 start)
     = Inl (Exn APIError ''GET request failed'')"
    by code_simp
  show ?thesis using handler pipeline by simp
qed

section \<open>The adaptive query executor\<close>

lemma explicit_range_first_request:
  "get_time_series_data now fetch nos (Some f) (Some t) res s =
     (case fetch nos f t res s of
        (Inr r, s3) \<Rightarrow> (Inr r, s3)
      | (Inl exc, s3) \<Rightarrow>
          (if isinstance_APIError exc \<and> ladder_trigger exc
           then fallback_30_days now fetch nos res s3
           else (Inl exc, s3)))"
  by (simp add: get_time_series_data_def default_from_date_def default_to_date_def
           split: prod.splits sum.splits)

text \<open>
  Claim C5, as stated, fails.  On 2023-05-15 the day 90 days ago is 2023-02-14, so the
  specification's start is 2023-02-01; the executor first moves to the first day of the
  current month, 2023-05-01, and then goes back 90 days, which gives 2023-01-31.
\<close>

theorem default_range_counterexample:
  "fst (default_from_date (fixture_now (at_date 2023 5 15)) None ()) = Inr (at_date 2023 1 31)
   \<and> spec_default_from_date (at_date 2023 5 15) = Inr (at_date 2023 2 1)
   \<and> snd (get_time_series_data (fixture_now (at_date 2023 5 15))
             (fixture_fetch (\<lambda>n. Inr ''series'')) [''735999''] None None ''MONTH'' [])
       = [(at_date 2023 1 31, at_date 2023 5 15)]"
  by code_simp

text \<open>
  Claim C5, amended.  When \<open>from_date\<close> is unspecified the executor uses as the start of
  the requested range the instant 90 days before the first day of the current month (at
  the current time of day); when \<open>to_date\<close> is unspecified it uses the current time as the
  end of the range.  The request issued first is the one for that range.
\<close>

theorem default_range:
  "(now s = (t0, s1) \<and> minus_days (replace_day_1 t0) 90 = Inr f \<and> now s1 = (t1, s2)
      \<longrightarrow> get_time_series_data now fetch nos None None res s
            = get_time_series_data now fetch nos (Some f) (Some t1) res s2)
   \<and> (now s = (t0, s1) \<and> minus_days (replace_day_1 t0) 90 = Inr f
      \<longrightarrow> get_time_series_data now fetch nos None (Some t) res s
            = get_time_series_data now fetch nos (Some f) (Some t) res s1)
   \<and> (now s = (t1, s2)
      \<longrightarrow> get_time_series_data now fetch nos (Some f') None res s
            = get_time_series_data now fetch nos (Some f') (Some t1) res s2)
   \<and> get_time_series_data now fetch nos (Some f') (Some t) res s =
       (case fetch nos f' t res s of
          (Inr r, s3) \<Rightarrow> (Inr r, s3)
        | (Inl exc, s3) \<Rightarrow>
            (if isinstance_APIError exc \<and> ladder_trigger exc
             then fallback_30_days now fetch nos res s3
             else (Inl exc, s3)))"
proof -
  have both: "get_time_series_data now fetch nos None None res s
            = get_time_series_data now fetch nos (Some f) (Some t1) res s2"
    if "now s = (t0, s1)" "minus_days (replace_day_1 t0) 90 = Inr f" "now s1 = (t1, s2)"
    using that by (simp add: get_time_series_data_def default_from_date_def default_to_date_def)
  have start_only: "get_time_series_data now fetch nos None (Some t) res s
            = get_time_series_data now fetch nos (Some f) (Some t) res s1"
    if "now s = (t0, s1)" "minus_days (replace_day_1 t0) 90 = Inr f"
    using that by (simp add: get_time_series_data_def default_from_date_def default_to_date_def)
  have end_only: "get_time_series_data now fetch nos (Some f') None res s
            = get_time_series_data now fetch nos (Some f') (Some t1) res s2"
    if "now s = (t1, s2)"
    using that by (simp add: get_time_series_data_def default_from_date_def default_to_date_def)
  show ?thesis
    using both start_only end_only explicit_range_first_request [of now fetch nos f' t res s]
    by blast
qed

theorem default_range_witness:
  "get_time_series_data (fixture_now (at_date 2023 5 15)) (fixture_fetch (\<lambda>n. Inr ''series''))
       [''735999''] None None ''MONTH'' []
     = (Inr ''series'', [(at_date 2023 1 31, at_date 2023 5 15)])
   \<and> get_time_series_data (fixture_now (at_date 2023 5 15)) (fixture_fetch (\<lambda>n. Inr ''series''))
       [''735999''] (Some (at_date 2023 3 1)) None ''MONTH'' []
     = (Inr ''series'', [(at_date 2023 3 1, at_date 2023 5 15)])"
proof -
  let ?now = "fixture_now (at_date 2023 5 15) :: (datetime \<times> datetime) list \<Rightarrow> _"
  let ?fetch = "fixture_fetch (\<lambda>n. Inr ''series'')"
  have clock: "?now [] = (at_date 2023 5 15, [])"
    by (simp add: fixture_now_def)
  have start: "minus_days (replace_day_1 (at_date 2023 5 15)) 90 = Inr (at_date 2023 1 31)"
    by code_simp
  have explicit: "get_time_series_data ?now ?fetch [''735999''] (Some f) (Some t) ''MONTH'' []
                    = (Inr ''series'', [(f, t)])" for f t
    using default_range [of ?now "[]" _ _ _ _ _ ?fetch "[''735999'']" "''MONTH''" t f]
    by (simp add: fixture_fetch_def)
  show ?thesis
    using default_range [of ?now "[]" "at_date 2023 5 15" "[]" "at_date 2023 1 31"
                            "at_date 2023 5 15" "[]" ?fetch "[''735999'']" "''MONTH''"
                            "at_date 2023 5 15" "at_date 2023 3 1"]
          clock start explicit
    by simp
qed

lemma str_contains_prefix: "prefix p s \<Longrightarrow> str_contains p s"
  by (cases s) auto

lemma ladder_trigger_decoded_errors:
  "ladder_trigger (Exn APIError ''Server error - try reducing date range or changing resolution'')"
  "ladder_trigger (Exn APIError (''Server error: '' @ m))"
  "\<not> ladder_trigger (Exn APIError ''Server internal error - try again later'')"
proof -
  show "ladder_trigger (Exn APIError ''Server error - try reducing date range or changing resolution'')"
    unfolding ladder_trigger_def by (simp add: str_contains_prefix)
  show "ladder_trigger (Exn APIError (''Server error: '' @ m))"
    unfolding ladder_trigger_def by (simp add: str_contains_prefix)
  show "\<not> ladder_trigger (Exn APIError ''Server internal error - try again later'')"
    by code_simp
qed

text \<open>
  Claim C3, as stated, fails in two ways.  When the second request (last 30 days) fails
  with an exception that is not an \<^verbatim>\<open>APIError\<close>, such as a login failure of the
  authentication collaborator escaping the pipeline's pre-flight, no third request is
  issued.  And the generic 500 failure \<open>Server internal error - try again later\<close>, a
  transient server error, does not enter the ladder: its text has neither marker.
\<close>

theorem degradation_ladder_counterexample:
  "get_time_series_data (fixture_now (at_date 2023 5 15))
       (fixture_fetch (\<lambda>n.
          if n = 0 then Inl (Exn APIError
                  ''Server error - try reducing date range or changing resolution'')
          else if n = 1 then Inl (Exn CollaboratorError ''Login failed'')
          else Inr ''series''))
       [''735999''] None None ''MONTH'' []
     = (Inl (Exn CollaboratorError ''Login failed''),
        [(at_date 2023 1 31, at_date 2023 5 15), (at_date 2023 4 15, at_date 2023 5 15)])
   \<and> get_time_series_data (fixture_now (at_date 2023 5 15))
       (fixture_fetch (\<lambda>n.
          if n = 0 then Inl (Exn APIError ''Server internal error - try again later'')
          else Inr ''series''))
       [''735999''] None None ''MONTH'' []
     = (Inl (Exn APIError ''Server internal error - try again later''),
        [(at_date 2023 1 31, at_date 2023 5 15)])"
  by code_simp

text \<open>
  Claim C3, amended.  When the request for the first (caller-supplied or default) range
  fails with an API error whose text contains \<open>Server error\<close> or \<open>reducing date range\<close>
  (as both errors decoded from a 500 envelope do, the \<open>INTERNAL_SERVER_ERROR\<close> one
  included), the executor issues a second request scoped to the last 30 days; if that
  request fails with an API error, it issues a third request scoped to the last 7 days
  and returns that result or propagates its failure.  A second-tier failure that is not an
  API error propagates without a third request, and a first-range failure that is not an
  API error with one of the two texts (for instance a fatal authentication failure)
  propagates immediately without entering the ladder.
\<close>

theorem degradation_ladder:
  "ladder_trigger (Exn APIError ''Server error - try reducing date range or changing resolution'')
   \<and> ladder_trigger (Exn APIError (''Server error: '' @ m))
   \<and> (default_from_date now from_date s0 = (Inr f, sa)
        \<and> default_to_date now to_date sa = (t, s)
        \<and> fetch nos f t res s = (Inl e1, s1)
      \<longrightarrow>
        (\<not> (isinstance_APIError e1 \<and> ladder_trigger e1)
           \<longrightarrow> get_time_series_data now fetch nos from_date to_date res s0 = (Inl e1, s1))
      \<and> (isinstance_APIError e1 \<and> ladder_trigger e1
           \<and> now s1 = (n1, s2) \<and> minus_days n1 30 = Inr f30 \<and> now s2 = (n2, s3)
         \<longrightarrow>
           (fetch nos f30 n2 res s3 = (Inr r, s4)
              \<longrightarrow> get_time_series_data now fetch nos from_date to_date res s0 = (Inr r, s4))
         \<and> (fetch nos f30 n2 res s3 = (Inl e2, s4) \<and> \<not> isinstance_APIError e2
              \<longrightarrow> get_time_series_data now fetch nos from_date to_date res s0 = (Inl e2, s4))
         \<and> (fetch nos f30 n2 res s3 = (Inl e2, s4) \<and> isinstance_APIError e2
              \<and> now s4 = (n3, s5) \<and> minus_days n3 7 = Inr f7 \<and> now s5 = (n4, s6)
              \<longrightarrow> get_time_series_data now fetch nos from_date to_date res s0
                    = fetch nos f7 n4 res s6)))"
proof -
  have no_ladder: "get_time_series_data now fetch nos from_date to_date res s0 = (Inl e1, s1)"
    if "default_from_date now from_date s0 = (Inr f, sa)"
       "default_to_date now to_date sa = (t, s)"
       "fetch nos f t res s = (Inl e1, s1)"
       "\<not> (isinstance_APIError e1 \<and> ladder_trigger e1)"
    using that by (auto simp: get_time_series_data_def)
  have enter: "get_time_series_data now fetch nos from_date to_date res s0
                 = fallback_30_days now fetch nos res s1"
    if "default_from_date now from_date s0 = (Inr f, sa)"
       "default_to_date now to_date sa = (t, s)"
       "fetch nos f t res s = (Inl e1, s1)"
       "isinstance_APIError e1" "ladder_trigger e1"
    using that by (simp add: get_time_series_data_def)
  have second_ok: "fallback_30_days now fetch nos res s1 = (Inr r, s4)"
    if "now s1 = (n1, s2)" "minus_days n1 30 = Inr f30" "now s2 = (n2, s3)"
       "fetch nos f30 n2 res s3 = (Inr r, s4)"
    using that by (simp add: fallback_30_days_def)
  have second_other: "fallback_30_days now fetch nos res s1 = (Inl e2, s4)"
    if "now s1 = (n1, s2)" "minus_days n1 30 = Inr f30" "now s2 = (n2, s3)"
       "fetch nos f30 n2 res s3 = (Inl e2, s4)" "\<not> isinstance_APIError e2"
    using that by (simp add: fallback_30_days_def)
  have third: "fallback_30_days now fetch nos res s1 = fetch nos f7 n4 res s6"
    if "now s1 = (n1, s2)" "minus_days n1 30 = Inr f30" "now s2 = (n2, s3)"
       "fetch nos f30 n2 res s3 = (Inl e2, s4)" "isinstance_APIError e2"
       "now s4 = (n3, s5)" "minus_days n3 7 = Inr f7" "now s5 = (n4, s6)"
    using that by (simp add: fallback_30_days_def final_fallback_def)
  show ?thesis
    using ladder_trigger_decoded_errors(1) ladder_trigger_decoded_errors(2) [of m]
          no_ladder enter second_ok second_other third
    by metis
qed

theorem degradation_ladder_witness:
  "get_time_series_data (fixture_now (at_date 2023 5 15))
       (fixture_fetch (\<lambda>n.
          if n = 0 then Inl (Exn APIError
                  ''Server error - try reducing date range or changing resolution'')
          else if n = 1 then Inl (Exn InvalidResponseError ''Empty response from API'')
          else Inr ''series''))
       [''735999''] None None ''MONTH'' []
     = (Inr ''series'',
        [(at_date 2023 1 31, at_date 2023 5 15), (at_date 2023 4 15, at_date 2023 5 15),
         (at_date 2023 5 8, at_date 2023 5 15)])
   \<and> get_time_series_data (fixture_now (at_date 2023 5 15))
       (fixture_fetch (\<lambda>n. Inl (Exn APIError ''Access forbidden - authentication may be required'')))
       [''735999''] None None ''MONTH'' []
     = (Inl (Exn APIError ''Access forbidden - authentication may be required''),
        [(at_date 2023 1 31, at_date 2023 5 15)])"
proof -
  let ?T = "at_date 2023 5 15"
  let ?now = "fixture_now ?T :: (datetime \<times> datetime) list \<Rightarrow> _"
  let ?e1 = "Exn APIError ''Server error - try reducing date range or changing resolution''"
  let ?e2 = "Exn InvalidResponseError ''Empty response from API''"
  let ?e3 = "Exn APIError ''Access forbidden - authentication may be required''"
  let ?script = "\<lambda>n::nat. if n = 0 then Inl ?e1 else if n = 1 then Inl ?e2 else Inr ''series''"
  let ?fetch = "fixture_fetch ?script"
  let ?deny = "fixture_fetch (\<lambda>n. Inl ?e3 :: exn + string)"
  let ?c1 = "[(at_date 2023 1 31, ?T)]"
  let ?c2 = "[(at_date 2023 1 31, ?T), (at_date 2023 4 15, ?T)]"
  have from_d: "default_from_date ?now None [] = (Inr (at_date 2023 1 31), [])"
    by code_simp
  have to_d: "default_to_date ?now None [] = (?T, [])"
    by (simp add: default_to_date_def fixture_now_def)
  have clock: "?now cs = (?T, cs)" for cs
    by (simp add: fixture_now_def)
  have d30: "minus_days ?T 30 = Inr (at_date 2023 4 15)"
    by code_simp
  have d7: "minus_days ?T 7 = Inr (at_date 2023 5 8)"
    by code_simp
  have first: "?fetch [''735999''] (at_date 2023 1 31) ?T ''MONTH'' [] = (Inl ?e1, ?c1)"
    by (simp add: fixture_fetch_def)
  have second: "?fetch [''735999''] (at_date 2023 4 15) ?T ''MONTH'' ?c1 = (Inl ?e2, ?c2)"
    by (simp add: fixture_fetch_def)
  have api1: "isinstance_APIError ?e1" and api2: "isinstance_APIError ?e2"
    by (simp_all add: isinstance_APIError_def)
  have trig: "ladder_trigger ?e1"
    by (rule ladder_trigger_decoded_errors(1))
  have denied: "?deny [''735999''] (at_date 2023 1 31) ?T ''MONTH'' [] = (Inl ?e3, ?c1)"
    by (simp add: fixture_fetch_def)
  have no_trig: "\<not> ladder_trigger ?e3"
    by code_simp
  have run: "get_time_series_data ?now ?fetch [''735999''] None None ''MONTH'' []
               = ?fetch [''735999''] (at_date 2023 5 8) ?T ''MONTH'' ?c2"
    using degradation_ladder
            [where now = ?now and from_date = None and to_date = None and ?s0.0 = "[]"
               and f = "at_date 2023 1 31" and sa = "[]" and t = ?T and s = "[]"
               and fetch = ?fetch and nos = "[''735999'']" and res = "''MONTH''"
               and ?e1.0 = ?e1 and ?s1.0 = ?c1 and ?n1.0 = ?T and ?s2.0 = ?c1
               and ?f30.0 = "at_date 2023 4 15" and ?n2.0 = ?T and ?s3.0 = ?c1
               and ?e2.0 = ?e2 and ?s4.0 = ?c2 and ?n3.0 = ?T and ?s5.0 = ?c2
               and ?f7.0 = "at_date 2023 5 8" and ?n4.0 = ?T and ?s6.0 = ?c2]
          from_d to_d first second api1 api2 trig clock d30 d7
    by blast
  have stop: "get_time_series_data ?now ?deny [''735999''] None None ''MONTH'' [] = (Inl ?e3, ?c1)"
    using degradation_ladder
            [where now = ?now and from_date = None and to_date = None and ?s0.0 = "[]"
               and f = "at_date 2023 1 31" and sa = "[]" and t = ?T and s = "[]"
               and fetch = ?deny and nos = "[''735999'']" and res = "''MONTH''"
               and ?e1.0 = ?e3 and ?s1.0 = ?c1]
          from_d to_d denied no_trig
    by blast
  show ?thesis
    unfolding run stop by (simp add: fixture_fetch_def)
qed

section \<open>The token lifecycle gate\<close>

text \<open>
  Claim C9.  Whenever the gate decides that renewal is needed (proactively, or because the
  token is expired): with a real refresh token (present, non-empty and not the sentinel
  \<open>session_based\<close>) it calls the collaborator's refresh-only operation, and if that
  raises, whatever the exception, it falls back to full re-authentication; without a real
  refresh token it performs full re-authentication and never calls the refresh-only
  operation.
\<close>

theorem token_gate_renewal:
  "(proactive \<and> needs_renewal ac (world s)) \<or> is_token_expired ac (world s) \<longrightarrow>
     (refresh_token ac (world s) = Some tok \<and> tok \<noteq> [] \<and> tok \<noteq> ''session_based'' \<longrightarrow>
        (refresh_access_token ac (world s) = (None, w1) \<longrightarrow>
           ensure_valid_token ac proactive s
             = (None, \<lparr>world = w1, trace = trace s @ [Refresh]\<rparr>))
      \<and> (refresh_access_token ac (world s) = (Some exc, w1) \<and> authenticate ac w1 = (outcome, w2) \<longrightarrow>
           ensure_valid_token ac proactive s
             = (outcome, \<lparr>world = w2, trace = trace s @ [Refresh, Authenticate]\<rparr>)))
   \<and> ((refresh_token ac (world s) = None \<or> refresh_token ac (world s) = Some []
         \<or> refresh_token ac (world s) = Some ''session_based'')
        \<and> authenticate ac (world s) = (outcome, w1) \<longrightarrow>
           ensure_valid_token ac proactive s
             = (outcome, \<lparr>world = w1, trace = trace s @ [Authenticate]\<rparr>))"
  by (auto simp: ensure_valid_token_def call_refresh_def call_authenticate_def str_truthy_def)

theorem token_gate_renewal_witness:
  "ensure_valid_token (fixture_auth (Some ''refresh-abc'') True None) True start
     = (None, \<lparr>world = 0, trace = [Refresh]\<rparr>)
   \<and> ensure_valid_token
        (fixture_auth (Some ''refresh-abc'') True (Some (Exn CollaboratorError ''invalid_grant'')))
        True start
     = (None, \<lparr>world = 0, trace = [Refresh, Authenticate]\<rparr>)
   \<and> ensure_valid_token (fixture_auth (Some ''session_based'') True None) True start
     = (None, \<lparr>world = 0, trace = [Authenticate]\<rparr>)
   \<and> ensure_valid_token (fixture_auth None True None) True start
     = (None, \<lparr>world = 0, trace = [Authenticate]\<rparr>)"
  using token_gate_renewal
          [where ac = "fixture_auth (Some ''refresh-abc'') True None" and proactive = True
             and s = start and tok = "''refresh-abc''" and ?w1.0 = 0]
        token_gate_renewal
          [where ac = "fixture_auth (Some ''refresh-abc'') True
                         (Some (Exn CollaboratorError ''invalid_grant''))"
             and proactive = True and s = start and tok = "''refresh-abc''" and ?w1.0 = 0
             and exc = "Exn CollaboratorError ''invalid_grant''" and outcome = None
             and ?w2.0 = 0]
        token_gate_renewal
          [where ac = "fixture_auth (Some ''session_based'') True None" and proactive = True
             and s = start and outcome = None and ?w1.0 = 0]
        token_gate_renewal
          [where ac = "fixture_auth None True None" and proactive = True
             and s = start and outcome = None and ?w1.0 = 0]
  by (simp add: fixture_auth_def start_def)

section \<open>Retry dispatch and backoff\<close>

lemma retry_dispatch:
  "handle_retry_logic c exc url k m s =
     (if str_exn exc = TOKEN_EXPIRED_RETRY_MSG \<and> k < (if is_session_based c s then 4 else 1)
      then get c url (k + 1) (call_sleep c (retry_delay (is_session_based c s) k) s)
      else (Inl exc, s))"
  by (simp add: handle_retry_logic.simps Let_def)

lemma attempt_unfold:
  "k < (if is_session_based c s then 5 else 2) \<Longrightarrow>
   get c url k s =
     (case ensure_valid_token (auth c) True s of
        (Some e, s1) \<Rightarrow> (Inl e, s1)
      | (None, s1) \<Rightarrow>
          (case try_request c url
                  (map (\<lambda>(name, v). (name, v, get_cookie_domain name))
                       (session_cookies (auth c) (world s1))) s1 of
             (Inr resp, s2) \<Rightarrow> (Inr resp, s2)
           | (Inl exc, s2) \<Rightarrow>
               (if isinstance_APIError exc
                then handle_retry_logic c exc url k (if is_session_based c s then 5 else 2) s2
                else (Inl (Exn APIError ''GET request failed''), s2))))"
  by (subst get.simps) (simp add: Let_def)

text \<open>
  Claim C4, as stated, fails for credential-token-mode: that mode permits one retry
  only, so a request that keeps meeting expired tokens sleeps once, for 0.1 seconds; at
  attempt 1 the signal is not retried and no delay of 0.2 seconds ever occurs.
\<close>

theorem retry_backoff_counterexample:
  "sleeps (trace (snd (get (fixture_client (Some ''refresh-abc'') (\<lambda>n. fixture_status 401))
                           ''https://www.fortum.com/se/el/api/auth/session'' 0 start)))
     = [1 / 10]
   \<and> handle_retry_logic (fixture_client (Some ''refresh-abc'') (\<lambda>n. fixture_status 401))
        (Exn APIError TOKEN_EXPIRED_RETRY_MSG)
        ''https://www.fortum.com/se/el/api/auth/session'' 1 2 start
     = (Inl (Exn APIError TOKEN_EXPIRED_RETRY_MSG), start)"
  by code_simp

text \<open>
  Claim C4, amended.  When the retry signal is dispatched at attempt counter \<open>attempt\<close>,
  the delay slept before the next physical attempt is exactly \<open>5 + 5 * attempt\<close> seconds
  in session-cookie-mode, where attempts 0 to 3 are retried (5, 10, 15 and 20 seconds for
  the four possible retries), and exactly \<open>0.1 * 2 ^ attempt\<close> seconds in
  credential-token-mode, where only attempt 0 is retried (0.1 seconds for the one possible
  retry); at a higher attempt counter the signal is not retried and nothing is slept.
\<close>

theorem retry_backoff:
  "str_exn exc = TOKEN_EXPIRED_RETRY_MSG \<longrightarrow>
     (is_session_based c s \<and> attempt < 4 \<longrightarrow>
        handle_retry_logic c exc url attempt m s
          = get c url (attempt + 1) (call_sleep c (5 + 5 * of_nat attempt) s))
   \<and> (\<not> is_session_based c s \<and> attempt < 1 \<longrightarrow>
        handle_retry_logic c exc url attempt m s
          = get c url (attempt + 1) (call_sleep c ((1 / 10) * 2 ^ attempt) s))
   \<and> ((is_session_based c s \<and> 4 \<le> attempt) \<or> (\<not> is_session_based c s \<and> 1 \<le> attempt) \<longrightarrow>
        handle_retry_logic c exc url attempt m s = (Inl exc, s))"
  by (auto simp: retry_dispatch retry_delay_def algebra_simps)

theorem retry_backoff_witness:
  "sleeps (trace (snd (handle_retry_logic
      (fixture_client (Some ''session_based'') (\<lambda>n. fixture_status 401))
      (Exn APIError TOKEN_EXPIRED_RETRY_MSG) ''u'' 2 5 start))) = [15, 20]
   \<and> sleeps (trace (snd (handle_retry_logic
      (fixture_client (Some ''refresh-abc'') (\<lambda>n. fixture_status 401))
      (Exn APIError TOKEN_EXPIRED_RETRY_MSG) ''u'' 0 2 start))) = [1 / 10]
   \<and> sleeps (trace (snd (handle_retry_logic
      (fixture_client (Some ''session_based'') (\<lambda>n. fixture_status 401))
      (Exn APIError TOKEN_EXPIRED_RETRY_MSG) ''u'' 4 5 start))) = []
   \<and> sleeps (trace (snd (get (fixture_client (Some ''session_based'') (\<lambda>n. fixture_status 401))
                              ''u'' 0 start))) = [5, 10, 15, 20]"
proof -
  let ?S = "fixture_client (Some ''session_based'') (\<lambda>n. fixture_status 401)"
  let ?C = "fixture_client (Some ''refresh-abc'') (\<lambda>n. fixture_status 401)"
  let ?e = "Exn APIError TOKEN_EXPIRED_RETRY_MSG"
  have sig: "str_exn ?e = TOKEN_EXPIRED_RETRY_MSG"
    by simp
  have session: "is_session_based ?S start" and credential: "\<not> is_session_based ?C start"
    by (simp_all add: is_session_based_def fixture_client_def fixture_auth_def)
  have a: "handle_retry_logic ?S ?e ''u'' 2 5 start
             = get ?S ''u'' (2 + 1) (call_sleep ?S (5 + 5 * of_nat 2) start)"
    using retry_backoff [of ?e ?S start 2 "''u''" 5] sig session by simp
  have b: "handle_retry_logic ?C ?e ''u'' 0 2 start
             = get ?C ''u'' (0 + 1) (call_sleep ?C ((1 / 10) * 2 ^ 0) start)"
    using retry_backoff [of ?e ?C start 0 "''u''" 2] sig credential by simp
  have c: "handle_retry_logic ?S ?e ''u'' 4 5 start = (Inl ?e, start)"
    using retry_backoff [of ?e ?S start 4 "''u''" 5] sig session by simp
  have a': "sleeps (trace (snd (get ?S ''u'' (2 + 1) (call_sleep ?S (5 + 5 * of_nat 2) start))))
              = [15, 20]"
    by code_simp
  have b': "sleeps (trace (snd (get ?C ''u'' (0 + 1) (call_sleep ?C ((1 / 10) * 2 ^ 0) start))))
              = [1 / 10]"
    by code_simp
  have d: "sleeps (trace (snd (get ?S ''u'' 0 start))) = [5, 10, 15, 20]"
    by code_simp
  show ?thesis
    unfolding a b c using a' b' d by (simp add: start_def)
qed

section \<open>Redirects\<close>






section \<open>Exhausting the retries\<close>

text \<open>
  Claim C1 at a request whose every physical attempt returns 401, with a collaborator
  whose refresh succeeds.  The pipeline makes exactly 5 physical attempts in
  session-cookie-mode and exactly 2 in credential-token-mode, as claimed, but the failure
  it then raises is the internal retry signal \<open>Token expired - retry required\<close>, not the
  \<open>Maximum retry attempts ... exceeded for <url>\<close> error.  That error is raised only when
  \<^verbatim>\<open>_get\<close> is entered with the attempt counter at the ceiling, and the retry dispatcher
  stops one attempt earlier.
\<close>

theorem unauthorized_exhaustion:
  "(case get (fixture_client (Some ''session_based'') (\<lambda>n. fixture_status 401))
             ''https://www.fortum.com/se/el/api/auth/session'' 0 start of
      (r, s) \<Rightarrow> (r, physical_attempts (trace s)))
     = (Inl (Exn APIError ''Token expired - retry required''), 5)
   \<and> (case get (fixture_client (Some ''refresh-abc'') (\<lambda>n. fixture_status 401))
             ''https://www.fortum.com/se/el/api/auth/session'' 0 start of
      (r, s) \<Rightarrow> (r, physical_attempts (trace s)))
     = (Inl (Exn APIError ''Token expired - retry required''), 2)
   \<and> get (fixture_client (Some ''session_based'') (\<lambda>n. fixture_status 401))
          ''https://www.fortum.com/se/el/api/auth/session'' 5 start
     = (Inl (Exn APIError
          ''Maximum retry attempts (5) exceeded for https://www.fortum.com/se/el/api/auth/session''),
        start)"
  by code_simp

text \<open>
  The same for every client: if the mode does not change, the token gate finds nothing
  to renew, the locale is supported, every physical request is answered with 401 and
  every refresh succeeds, then a logical request makes exactly 5 resp. 2 physical attempts
  and ends with the retry signal.
\<close>

lemma unauthorized_attempt:
  assumes mode: "\<forall>w. refresh_token (auth c) w = rt"
    and fresh: "\<forall>w. \<not> needs_renewal (auth c) w \<and> \<not> is_token_expired (auth c) w"
    and supported: "client_locale c = ''SV'' \<or> client_locale c = ''FI''"
    and always_401: "\<forall>u h ck w. \<exists>r w'. http_get c u h ck w = (Inr r, w') \<and> status_code r = 401"
    and refresh_ok: "\<forall>w. fst (refresh_access_token (auth c) w) = None"
    and below: "k < (if rt = Some ''session_based'' then 5 else 2)"
  shows "\<exists>s2. get c url k s
                 = handle_retry_logic c (Exn APIError TOKEN_EXPIRED_RETRY_MSG) url k
                     (if rt = Some ''session_based'' then 5 else 2) s2
              \<and> physical_attempts (trace s2) = physical_attempts (trace s) + 1"
proof -
  have session: "is_session_based c s = (rt = Some ''session_based'')" for s
    using mode by (simp add: is_session_based_def)
  have gate: "ensure_valid_token (auth c) True s = (None, s)"
    using fresh by (simp add: ensure_valid_token_def)
  obtain hs where hs: "build_headers c url (world s) = Inr hs"
    using supported by (auto simp: build_headers_def get_fortum_base_url_def)
  let ?cookies = "map (\<lambda>(name, v). (name, v, get_cookie_domain name))
                      (session_cookies (auth c) (world s))"
  obtain r w' where http: "http_get c url hs ?cookies (world s) = (Inr r, w')"
    and code: "status_code r = 401"
    using always_401 by blast
  let ?s1 = "\<lparr>world = w', trace = trace s @ [HttpGet url hs ?cookies]\<rparr>"
  obtain w'' where refreshed: "refresh_access_token (auth c) w' = (None, w'')"
    using refresh_ok by (metis fst_conv surj_pair)
  let ?s2 = "\<lparr>world = w'', trace = trace s @ [HttpGet url hs ?cookies] @ [Refresh]\<rparr>"
  have request: "try_request c url ?cookies s = (Inl (Exn APIError TOKEN_EXPIRED_RETRY_MSG), ?s2)"
    using hs http code refreshed
    by (simp add: try_request_def call_http_get_def handle_response_def
                  handle_unauthorized_response_def call_refresh_def)
  have api: "isinstance_APIError (Exn APIError TOKEN_EXPIRED_RETRY_MSG)"
    by (simp add: isinstance_APIError_def)
  have "get c url k s
          = handle_retry_logic c (Exn APIError TOKEN_EXPIRED_RETRY_MSG) url k
              (if rt = Some ''session_based'' then 5 else 2) ?s2"
    using below gate request api by (subst attempt_unfold) (simp_all add: session)
  moreover have "physical_attempts (trace ?s2) = physical_attempts (trace s) + 1"
    by (simp add: physical_attempts_def is_http_get_def)
  ultimately show ?thesis by blast
qed

lemma unauthorized_exhaustion_general:
  assumes mode: "\<forall>w. refresh_token (auth c) w = rt"
    and fresh: "\<forall>w. \<not> needs_renewal (auth c) w \<and> \<not> is_token_expired (auth c) w"
    and supported: "client_locale c = ''SV'' \<or> client_locale c = ''FI''"
    and always_401: "\<forall>u h ck w. \<exists>r w'. http_get c u h ck w = (Inr r, w') \<and> status_code r = 401"
    and refresh_ok: "\<forall>w. fst (refresh_access_token (auth c) w) = None"
    and ceiling: "ceiling_of_mode = (if rt = Some ''session_based'' then 5 else 2 :: nat)"
    and below: "k < ceiling_of_mode"
  shows "fst (get c url k s) = Inl (Exn APIError TOKEN_EXPIRED_RETRY_MSG)
         \<and> physical_attempts (trace (snd (get c url k s)))
             = physical_attempts (trace s) + (ceiling_of_mode - k)"
  using below
proof (induction "ceiling_of_mode - k" arbitrary: k s)
  case 0
  then show ?case by simp
next
  case (Suc n)
  let ?sig = "Exn APIError TOKEN_EXPIRED_RETRY_MSG"
  have session: "is_session_based c s = (rt = Some ''session_based'')" for s
    using mode by (simp add: is_session_based_def)
  from Suc.prems ceiling
  have "k < (if rt = Some ''session_based'' then 5 else 2)" by simp
  from unauthorized_attempt [OF mode fresh supported always_401 refresh_ok this, of url s]
  obtain s2 where step: "get c url k s = handle_retry_logic c ?sig url k ceiling_of_mode s2"
    and count: "physical_attempts (trace s2) = physical_attempts (trace s) + 1"
    using ceiling by auto
  show ?case
  proof (cases "k + 1 < ceiling_of_mode")
    case True
    let ?s3 = "call_sleep c (retry_delay (is_session_based c s2) k) s2"
    from True ceiling have "k < (if is_session_based c s2 then 4 else 1)"
      by (auto simp: session split: if_splits)
    then have retry: "handle_retry_logic c ?sig url k ceiling_of_mode s2 = get c url (k + 1) ?s3"
      by (simp add: retry_dispatch)
    from Suc.hyps(2) have "n = ceiling_of_mode - (k + 1)" by simp
    from Suc.hyps(1) [OF this True, of ?s3]
    have "fst (get c url (k + 1) ?s3) = Inl ?sig"
      and "physical_attempts (trace (snd (get c url (k + 1) ?s3)))
             = physical_attempts (trace ?s3) + (ceiling_of_mode - (k + 1))"
      by simp_all
    moreover have "physical_attempts (trace ?s3) = physical_attempts (trace s2)"
      by (simp add: call_sleep_def physical_attempts_def is_http_get_def)
    ultimately show ?thesis
      using step retry count True by simp
  next
    case False
    with Suc.prems have last: "ceiling_of_mode = k + 1" by simp
    with ceiling have "\<not> k < (if is_session_based c s2 then 4 else 1)"
      by (auto simp: session split: if_splits)
    then have "handle_retry_logic c ?sig url k ceiling_of_mode s2 = (Inl ?sig, s2)"
      by (simp add: retry_dispatch)
    then show ?thesis
      using step count last by simp
  qed
qed

end
